theory Spec2Isabelle
  imports Main "HOL-Library.Char_ord" "HOL-Library.List_Lexorder"
begin

section \<open>JavaScript values, strings and objects\<close>

text \<open>
  The embedding follows \<^verbatim>\<open>src/lib/swiftpass.js\<close>. A JavaScript string is a \<^typ>\<open>string\<close>
  holding the UTF-8 bytes of its text, as the source file holds its literals; on ASCII text
  (the gateway's field names, signatures and report framing) one character is one code unit.
  The order on strings is the lexicographic order (a proper prefix is smaller), which on
  text of the basic plane is the order the default comparator of \<^verbatim>\<open>Array.prototype.sort\<close>
  uses on strings.

  Field values are the scalar values of the language, plain objects (needed for the parsed
  response) and nothing else: arrays and functions are left out. \<open>Num n\<close> stands for the
  number \<open>n\<close> when \<open>n\<close> is a safe integer (of magnitude below \<open>2^53\<close>), where
  \<^verbatim>\<open>Number.prototype.toString\<close> prints the decimal digits of \<open>n\<close>; fractions and
  larger numbers are not values of the model.
  Names of the source that start with an underscore lose it, as an Isabelle name cannot
  start with one: \<^verbatim>\<open>_getSign\<close> is \<open>getSign\<close>, and so on.
\<close>

datatype jsval =
    Undefined
  | Null
  | Bool bool
  | Num int
  | Str string
  | Obj "(string \<times> jsval) list"

text \<open>
  An object is the list of its own properties in enumeration order; a well-formed object
  has no key twice. The language enumerates the keys that are array indices first, in
  ascending numeric order, and the other keys after them in the order they were added.
\<close>

type_synonym jsobj = "(string \<times> jsval) list"

definition wf_obj :: "jsobj \<Rightarrow> bool" where
  "wf_obj obj = distinct (map fst obj)"

text \<open>ToBoolean: what \<^verbatim>\<open>if (v)\<close>, \<^verbatim>\<open>!v\<close> and \<^verbatim>\<open>a || b\<close> test.\<close>

fun truthy :: "jsval \<Rightarrow> bool" where
  "truthy Undefined = False"
| "truthy Null = False"
| "truthy (Bool b) = b"
| "truthy (Num n) = (n \<noteq> 0)"
| "truthy (Str s) = (s \<noteq> [])"
| "truthy (Obj m) = True"

text \<open>\<^verbatim>\<open>a || b\<close>\<close>

definition js_or :: "jsval \<Rightarrow> jsval \<Rightarrow> jsval" where
  "js_or a b = (if truthy a then a else b)"

text \<open>Decimal digits of a natural number, most significant first.\<close>

function digits :: "nat \<Rightarrow> string" where
  "digits n =
     (if n < 10 then [''0123456789'' ! n]
      else digits (n div 10) @ [''0123456789'' ! (n mod 10)])"
  by pat_completeness auto
termination
  by (relation \<open>measure id\<close>) auto

declare digits.simps [simp del]

text \<open>
  ToString, as applied by string concatenation (\<^verbatim>\<open>key + '=' + v\<close>) and, on a value that
  is neither undefined nor null, by \<^verbatim>\<open>v.toString()\<close>.
\<close>

fun js_to_string :: "jsval \<Rightarrow> string" where
  "js_to_string Undefined = ''undefined''"
| "js_to_string Null = ''null''"
| "js_to_string (Bool b) = (if b then ''true'' else ''false'')"
| "js_to_string (Num n) = (if n < 0 then ''-'' @ digits (nat (- n)) else digits (nat n))"
| "js_to_string (Str s) = s"
| "js_to_string (Obj m) = ''[object Object]''"

text \<open>\<^verbatim>\<open>Object.keys(obj)\<close>\<close>

definition Object_keys :: "jsobj \<Rightarrow> string list" where
  "Object_keys obj = map fst obj"

text \<open>\<^verbatim>\<open>obj[k]\<close>: a key the object does not have reads as undefined.\<close>

definition get_prop :: "jsobj \<Rightarrow> string \<Rightarrow> jsval" where
  "get_prop obj k = (case map_of obj k of None \<Rightarrow> Undefined | Some v \<Rightarrow> v)"

text \<open>
  An array index is the canonical decimal string of a number below \<open>2^32 - 1\<close>: digits
  only, and no leading zero except in \<open>0\<close> itself.
\<close>

definition digit_value :: "char \<Rightarrow> int option" where
  "digit_value c = map_of (zip ''0123456789'' [0, 1, 2, 3, 4, 5, 6, 7, 8, 9]) c"

definition array_index :: "string \<Rightarrow> int option" where
  "array_index k =
     (if k = [] then None
      else if list_ex (\<lambda>c. digit_value c = None) k then None
      else if hd k = CHR ''0'' \<and> tl k \<noteq> [] then None
      else (let n = foldl (\<lambda>a c. 10 * a + (case digit_value c of None \<Rightarrow> 0 | Some d \<Rightarrow> d)) 0 k
            in if n < 4294967295 then Some n else None))"

text \<open>
  \<^verbatim>\<open>obj[k] = v\<close>: an existing key keeps its place. A new key that is an array index goes
  before the first key that is a greater array index or no array index; any other new key
  goes to the end.
\<close>

fun insert_index :: "int \<Rightarrow> string \<Rightarrow> jsval \<Rightarrow> jsobj \<Rightarrow> jsobj" where
  "insert_index n k v [] = [(k, v)]"
| "insert_index n k v (p # ps) =
     (case array_index (fst p) of
        None \<Rightarrow> (k, v) # p # ps
      | Some m \<Rightarrow> if m < n then p # insert_index n k v ps else (k, v) # p # ps)"

definition set_prop :: "jsobj \<Rightarrow> string \<Rightarrow> jsval \<Rightarrow> jsobj" where
  "set_prop obj k v =
     (if k \<in> set (map fst obj) then map (\<lambda>p. if fst p = k then (k, v) else p) obj
      else (case array_index k of
              None \<Rightarrow> obj @ [(k, v)]
            | Some n \<Rightarrow> insert_index n k v obj))"

text \<open>\<^verbatim>\<open>delete obj[k]\<close>\<close>

definition delete_prop :: "jsobj \<Rightarrow> string \<Rightarrow> jsobj" where
  "delete_prop obj k = filter (\<lambda>p. fst p \<noteq> k) obj"

text \<open>
  Underscore's \<^verbatim>\<open>_.extend(dest, src)\<close> assigns every property of \<open>src\<close> to \<open>dest\<close>, in
  the order of \<open>src\<close>, and returns \<open>dest\<close>; \<^verbatim>\<open>_.clone(obj)\<close> is a shallow copy.
\<close>

definition underscore_extend :: "jsobj \<Rightarrow> jsobj \<Rightarrow> jsobj" where
  "underscore_extend dest src = fold (\<lambda>p acc. set_prop acc (fst p) (snd p)) src dest"

definition underscore_clone :: "jsobj \<Rightarrow> jsobj" where
  "underscore_clone obj = obj"

text \<open>\<^verbatim>\<open>parts.join(sep)\<close> on an array of strings.\<close>

fun join :: "string \<Rightarrow> string list \<Rightarrow> string" where
  "join sep [] = []"
| "join sep [x] = x"
| "join sep (x # y # ys) = x @ sep @ join sep (y # ys)"

text \<open>\<^verbatim>\<open>s.split(c)\<close> with a one-character separator: the empty string gives one empty part.\<close>

fun split_on :: "char \<Rightarrow> string \<Rightarrow> string list" where
  "split_on d [] = [[]]"
| "split_on d (c # cs) =
     (if c = d then [] # split_on d cs
      else (case split_on d cs of
              [] \<Rightarrow> [[c]]
            | part # parts \<Rightarrow> (c # part) # parts))"

text \<open>\<^verbatim>\<open>s.toUpperCase()\<close> on ASCII text (hex digests are ASCII).\<close>

definition upper_char :: "char \<Rightarrow> char" where
  "upper_char c =
     (case map_of (zip ''abcdefghijklmnopqrstuvwxyz'' ''ABCDEFGHIJKLMNOPQRSTUVWXYZ'') c of
        None \<Rightarrow> c
      | Some u \<Rightarrow> u)"

definition toUpperCase :: "string \<Rightarrow> string" where
  "toUpperCase s = map upper_char s"

section \<open>The canonical query encoder\<close>

text \<open>
  \<^verbatim>\<open>
  Swiftpass.prototype._toQueryString = function(object) {
    return Object.keys(object).filter(function(key) {
      return object[key] !== undefined && object[key] !== '';
    }).sort().map(function(key) {
      return key + '=' + object[key];
    }).join('&');
  };
  \<close>
\<close>

definition toQueryString :: "jsobj \<Rightarrow> string" where
  "toQueryString object =
     join ''&''
       (map (\<lambda>key. key @ ''='' @ js_to_string (get_prop object key))
          (sort
             (filter (\<lambda>key. get_prop object key \<noteq> Undefined \<and> get_prop object key \<noteq> Str [])
                (Object_keys object))))"

section \<open>Account, external capabilities and calls\<close>

text \<open>
  \<^verbatim>\<open>
  var Swiftpass = function(config) {
    this.subAppId = config.subAppId;
    this.partnerKey = config.partnerKey;
    this.mchId = config.mchId;
    this.notifyUrl = config.notifyUrl;
    this.passphrase = config.passphrase || config.mchId;
    this.pfx = config.pfx;
    return this;
  };
  \<close>
  The constructor never sets \<^verbatim>\<open>subMchId\<close>, which \<^verbatim>\<open>_extendWithDefault\<close> reads; the
  account carries it so that a client that assigns it afterwards is covered.
\<close>

record config =
  cfg_subAppId :: jsval
  cfg_partnerKey :: jsval
  cfg_mchId :: jsval
  cfg_notifyUrl :: jsval
  cfg_passphrase :: jsval
  cfg_pfx :: jsval

record account =
  subAppId :: jsval
  partnerKey :: jsval
  mchId :: jsval
  notifyUrl :: jsval
  passphrase :: jsval
  pfx :: jsval
  subMchId :: jsval

definition Swiftpass :: "config \<Rightarrow> account" where
  "Swiftpass c =
     \<lparr> subAppId = cfg_subAppId c,
       partnerKey = cfg_partnerKey c,
       mchId = cfg_mchId c,
       notifyUrl = cfg_notifyUrl c,
       passphrase = js_or (cfg_passphrase c) (cfg_mchId c),
       pfx = cfg_pfx c,
       subMchId = Undefined \<rparr>"

text \<open>
  An error object with its \<^verbatim>\<open>name\<close> and \<^verbatim>\<open>message\<close>, and the exception the language
  itself raises when a property of undefined or null is read or a non-function is called.
\<close>

datatype js_error = ErrorObj (err_name: string) (err_message: string)

datatype js_exception = TypeError

text \<open>
  The libraries the module requires are capabilities of the environment: the two digests
  (\<^verbatim>\<open>md5\<close>, \<^verbatim>\<open>sha1\<close>), the XML builder and parser of \<^verbatim>\<open>xml2js\<close>, the \<^verbatim>\<open>request\<close> library
  and \<^verbatim>\<open>https\<close> (given the certificate bundle and passphrase, the URL and the body), and
  the built-in \<^verbatim>\<open>encodeURIComponent\<close>. A transport answers with an error or with the body;
  the parser with an error or with the parsed document.
\<close>

record env =
  md5 :: "string \<Rightarrow> string"
  sha1 :: "string \<Rightarrow> string"
  encodeURIComponent :: "string \<Rightarrow> string"
  buildObject :: "jsobj \<Rightarrow> string"
  request_post :: "string \<Rightarrow> string \<Rightarrow> js_error + string"
  https_post :: "jsval \<Rightarrow> jsval \<Rightarrow> string \<Rightarrow> string \<Rightarrow> js_error + string"
  parseString :: "string \<Rightarrow> js_error + jsval"

text \<open>
  Every call of a digest, of the builder, of a transport and of the parser is recorded, in
  the order the calls are made.
\<close>

datatype event =
    EvDigest string string
  | EvBuildXml jsobj
  | EvHttp string string
  | EvHttps string string
  | EvParse string

fun is_transport :: "event \<Rightarrow> bool" where
  "is_transport (EvHttp u b) = True"
| "is_transport (EvHttps u b) = True"
| "is_transport e = False"

fun is_digest :: "event \<Rightarrow> bool" where
  "is_digest (EvDigest a s) = True"
| "is_digest e = False"

section \<open>The signature\<close>

text \<open>
  \<^verbatim>\<open>
  var signTypes = { MD5: md5, SHA1: sha1 };

  Swiftpass.prototype._getSign = function(pkg, signType) {
    pkg = _.clone(pkg);
    delete pkg.sign;
    signType = signType || 'MD5';
    var string1 = this._toQueryString(pkg);
    var stringSignTemp = string1 + '&key=' + this.partnerKey;
    var signValue = signTypes[signType](stringSignTemp).toUpperCase();
    return signValue;
  };
  \<close>
  The second argument is \<open>None\<close> when the caller leaves it out. The table is a plain
  object, so a name reads one of its two digests or what \<^verbatim>\<open>Object.prototype\<close> has under
  that name. Called on the table with the string, \<^verbatim>\<open>constructor\<close> wraps the string, whose
  \<^verbatim>\<open>toUpperCase\<close> is that of the string itself, and \<^verbatim>\<open>toString\<close> and \<^verbatim>\<open>toLocaleString\<close>
  answer \<open>[object Object]\<close>. Every other name ends in a TypeError: it reads undefined or an
  object, which cannot be called (a name nowhere in the chain, \<^verbatim>\<open>__proto__\<close>), or a
  function that throws for this argument or whose answer has no \<^verbatim>\<open>toUpperCase\<close>
  (\<^verbatim>\<open>valueOf\<close>, \<^verbatim>\<open>hasOwnProperty\<close>, \<^verbatim>\<open>isPrototypeOf\<close>, \<^verbatim>\<open>propertyIsEnumerable\<close> and the four
  accessor helpers).
\<close>

datatype sign_entry =
    Digest "string \<Rightarrow> string"
  | ObjectConstructor
  | ObjectToString
  | NoSignature

definition signTypes :: "env \<Rightarrow> string \<Rightarrow> sign_entry" where
  "signTypes e nm =
     (if nm = ''MD5'' then Digest (md5 e)
      else if nm = ''SHA1'' then Digest (sha1 e)
      else if nm = ''constructor'' then ObjectConstructor
      else if nm = ''toString'' then ObjectToString
      else if nm = ''toLocaleString'' then ObjectToString
      else NoSignature)"

definition getSign ::
  "env \<Rightarrow> account \<Rightarrow> jsobj \<Rightarrow> string option \<Rightarrow> event list \<times> (js_exception + string)" where
  "getSign e this pkg signType =
     (let pkg1 = underscore_clone pkg;
          pkg2 = delete_prop pkg1 ''sign'';
          signType1 = (case signType of None \<Rightarrow> ''MD5'' | Some s \<Rightarrow> if s \<noteq> [] then s else ''MD5'');
          string1 = toQueryString pkg2;
          stringSignTemp = string1 @ ''&key='' @ js_to_string (partnerKey this)
      in case signTypes e signType1 of
           Digest digest \<Rightarrow>
             ([EvDigest signType1 stringSignTemp], Inr (toUpperCase (digest stringSignTemp)))
         | ObjectConstructor \<Rightarrow> ([], Inr (toUpperCase stringSignTemp))
         | ObjectToString \<Rightarrow> ([], Inr (toUpperCase ''[object Object]''))
         | NoSignature \<Rightarrow> ([], Inl TypeError))"

text \<open>
  The signature as the specification words it: the fields without any \<open>sign\<close> key,
  canonicalized, followed by \<open>&key=\<close> and the secret, digested, in upper case.
\<close>

definition sign_spec :: "(string \<Rightarrow> string) \<Rightarrow> string \<Rightarrow> jsobj \<Rightarrow> string" where
  "sign_spec digest secret pkg =
     toUpperCase (digest (toQueryString [p \<leftarrow> pkg. fst p \<noteq> ''sign''] @ ''&key='' @ secret))"

section \<open>Default parameters\<close>

text \<open>
  \<^verbatim>\<open>
  Swiftpass.prototype._extendWithDefault = function(obj, keysNeedExtend) {
    var defaults = {
      sub_appid: this.subAppId,
      mch_id: this.mchId,
      sub_mch_id: this.subMchId,
      nonce_str: this._generateNonceStr(),
      notify_url: this.notifyUrl,
      op_user_id: this.mchId,
      pfx: this.pfx
    };
    var extendObject = {};
    keysNeedExtend.forEach(function(k) {
      if (defaults[k]) {
        extendObject[k] = defaults[k];
      }
    });
    return _.extend(extendObject, obj);
  };
  \<close>
  \<open>nonce\<close> is the string \<^verbatim>\<open>this._generateNonceStr()\<close> returns in this call: the random
  draws are an input of the model.
\<close>

definition defaults :: "account \<Rightarrow> string \<Rightarrow> jsobj" where
  "defaults this nonce =
     [(''sub_appid'', subAppId this),
      (''mch_id'', mchId this),
      (''sub_mch_id'', subMchId this),
      (''nonce_str'', Str nonce),
      (''notify_url'', notifyUrl this),
      (''op_user_id'', mchId this),
      (''pfx'', pfx this)]"

definition extendWithDefault :: "account \<Rightarrow> string \<Rightarrow> jsobj \<Rightarrow> string list \<Rightarrow> jsobj" where
  "extendWithDefault this nonce obj keysNeedExtend =
     (let extendObject =
            fold (\<lambda>k acc. if truthy (get_prop (defaults this nonce) k)
                           then set_prop acc k (get_prop (defaults this nonce) k)
                           else acc)
              keysNeedExtend []
      in underscore_extend extendObject obj)"

section \<open>Transport and response decoding\<close>

text \<open>
  A result is what the callback receives, \<^verbatim>\<open>callback(err, data)\<close> (no error is \<open>None\<close>, a
  missing second argument is undefined), or the exception that escapes.
\<close>

datatype cb_error = ErrString string | ErrObject js_error

datatype outcome = Callback "cb_error option" jsval | Throws js_exception

definition httpRequest :: "env \<Rightarrow> string \<Rightarrow> string \<Rightarrow> event list \<times> (js_error + string)" where
  "httpRequest e url body = ([EvHttp url body], request_post e url body)"

definition httpsRequest ::
  "env \<Rightarrow> account \<Rightarrow> string \<Rightarrow> string \<Rightarrow> event list \<times> (js_error + string)" where
  "httpsRequest e this url body =
     ([EvHttps url body], https_post e (pfx this) (passphrase this) url body)"

text \<open>\<^verbatim>\<open>builder.buildObject({ xml: obj })\<close>\<close>

definition buildXml :: "env \<Rightarrow> jsobj \<Rightarrow> event list \<times> string" where
  "buildXml e obj = ([EvBuildXml obj], buildObject e [(''xml'', Obj obj)])"

text \<open>
  \<^verbatim>\<open>v[k]\<close> on a value: undefined and null have no properties, and the keys read here
  (\<open>xml\<close>, \<open>pay_info\<close>) are not properties of a string, number or boolean.
\<close>

fun read_prop :: "jsval \<Rightarrow> string \<Rightarrow> js_exception + jsval" where
  "read_prop Undefined k = Inl TypeError"
| "read_prop Null k = Inl TypeError"
| "read_prop (Obj m) k = Inr (get_prop m k)"
| "read_prop v k = Inr Undefined"

text \<open>
  The message of the missing-parameter error, in the UTF-8 bytes of the source file: the
  literal holds two backspace characters after its first character.
\<close>

definition missParamMessage :: string where
  "missParamMessage =
     [CHR 0xE8, CHR 0xAF, CHR 0xB7, CHR 0x08, CHR 0x08, CHR 0xE4, CHR 0xBC, CHR 0xA0,
      CHR 0xE5, CHR 0x85, CHR 0xA5, CHR 0xE6, CHR 0x94, CHR 0xAF, CHR 0xE4, CHR 0xBB,
      CHR 0x98, CHR 0xE6, CHR 0x96, CHR 0xB9, CHR 0xE5, CHR 0xBC, CHR 0x8F]"

text \<open>
  \<^verbatim>\<open>
  Swiftpass.prototype.validate = function(xml, callback) {
    xml2js.parseString(xml, { trim: true, explicitArray: false }, function(err, json) {
      var error = null, data;
      if (err) {
        error = new Error();
        err.name = 'XMLParseError';
        return callback(err, xml);
      }
      data = json ? json.xml : {};
      if (!data.pay_info) {
        error = new Error(...);
        error.name = 'missParamError';
      }
      callback(error, data);
    });
  };
  \<close>
\<close>

definition validate :: "env \<Rightarrow> string \<Rightarrow> event list \<times> outcome" where
  "validate e xml =
     ([EvParse xml],
      (case parseString e xml of
         Inl err \<Rightarrow>
           Callback (Some (ErrObject (ErrorObj ''XMLParseError'' (err_message err)))) (Str xml)
       | Inr json \<Rightarrow>
           (case (if truthy json then read_prop json ''xml'' else Inr (Obj [])) of
              Inl ex \<Rightarrow> Throws ex
            | Inr data \<Rightarrow>
                (case read_prop data ''pay_info'' of
                   Inl ex \<Rightarrow> Throws ex
                 | Inr pay_info \<Rightarrow>
                     if \<not> truthy pay_info
                     then Callback (Some (ErrObject (ErrorObj ''missParamError'' missParamMessage))) data
                     else Callback None data))))"

section \<open>The signed query and the five operations\<close>

definition URL :: string where
  "URL = ''https://pay.swiftpass.cn/pay/gateway''"

definition URLS_JS_PAY :: string where
  "URLS_JS_PAY = ''pay.weixin.jspay''"

definition URLS_ORDER_QUERY :: string where
  "URLS_ORDER_QUERY = ''unified.trade.query''"

definition URLS_REFUND :: string where
  "URLS_REFUND = ''unified.trade.refund''"

definition URLS_REFUND_QUERY :: string where
  "URLS_REFUND_QUERY = ''unified.trade.refundquery''"

definition URLS_CLOSE_ORDER :: string where
  "URLS_CLOSE_ORDER = ''unified.trade.close''"

record options =
  opt_https :: bool
  opt_required :: "string list option"

text \<open>
  \<^verbatim>\<open>
  for (var key in params) {
    if (params[key] !== undefined && params[key] !== null) {
      params[key] = params[key].toString();
    }
  }
  \<close>
\<close>

definition stringify_values :: "jsobj \<Rightarrow> jsobj" where
  "stringify_values params =
     map (\<lambda>p. (fst p,
                if snd p \<noteq> Undefined \<and> snd p \<noteq> Null then Str (js_to_string (snd p)) else snd p))
       params"

text \<open>
  \<^verbatim>\<open>
  var missing = [];
  required.forEach(function(key) {
    var alters = key.split('|');
    for (var i = alters.length - 1; i >= 0; i--) {
      if (params[alters[i]]) {
        return;
      }
    }
    missing.push(key);
  });
  \<close>
\<close>

definition missing_groups :: "jsobj \<Rightarrow> string list \<Rightarrow> string list" where
  "missing_groups params required =
     filter (\<lambda>key. \<not> list_ex (\<lambda>alter. truthy (get_prop params alter)) (rev (split_on CHR ''|'' key)))
       required"

text \<open>
  \<^verbatim>\<open>
  Swiftpass.prototype._signedQuery = function(url, params, options, callback) {
    var self = this;
    var required = options.required || [];
    params['service'] = url;
    params = this._extendWithDefault(params, ['mch_id', 'nonce_str', 'sub_appid']);
    params = _.extend({ 'sign': this._getSign(params) }, params);
    if (params.long_url) {
      params.long_url = encodeURIComponent(params.long_url);
    }
    for (var key in params) { ... }
    var missing = [];
    required.forEach(...);
    if (missing.length) {
      return callback('missing params ' + missing.join(','));
    }
    var request = (options.https ? this._httpsRequest : this._httpRequest).bind(this);
    request(URL, this.buildXml(params), function(err, body) {
      if (err) {
        return callback(err);
      }
      self.validate(body, callback);
    });
  };
  \<close>
  The model returns the calls made, in order, and what the callback receives.
\<close>

definition signedQuery ::
  "env \<Rightarrow> account \<Rightarrow> string \<Rightarrow> jsval \<Rightarrow> jsobj \<Rightarrow> options \<Rightarrow> event list \<times> outcome" where
  "signedQuery e this nonce url params options =
     (let required = (case opt_required options of None \<Rightarrow> [] | Some r \<Rightarrow> r);
          params1 = set_prop params ''service'' url;
          params2 = extendWithDefault this nonce params1 [''mch_id'', ''nonce_str'', ''sub_appid''];
          signed = getSign e this params2 None
      in case snd signed of
           Inl ex \<Rightarrow> (fst signed, Throws ex)
         | Inr signValue \<Rightarrow>
             (let params3 = underscore_extend [(''sign'', Str signValue)] params2;
                  params4 =
                    (if truthy (get_prop params3 ''long_url'')
                     then set_prop params3 ''long_url''
                            (Str (encodeURIComponent e (js_to_string (get_prop params3 ''long_url''))))
                     else params3);
                  params5 = stringify_values params4;
                  missing = missing_groups params5 required
              in if missing \<noteq> []
                 then (fst signed,
                       Callback (Some (ErrString (''missing params '' @ join '','' missing))) Undefined)
                 else
                   (let built = buildXml e params5;
                        sent = (if opt_https options then httpsRequest e this URL (snd built)
                                else httpRequest e URL (snd built))
                    in case snd sent of
                         Inl err \<Rightarrow>
                           (fst signed @ fst built @ fst sent,
                            Callback (Some (ErrObject err)) Undefined)
                       | Inr body \<Rightarrow>
                           (fst signed @ fst built @ fst sent @ fst (validate e body),
                            snd (validate e body)))))"

text \<open>
  \<^verbatim>\<open>
  Swiftpass.prototype.unifiedOrder = function(params, callback) {
    var requiredData = ['body', 'out_trade_no', 'total_fee', 'mch_create_ip', 'mch_id', 'service'];
    params.notify_url = params.notify_url || this.notifyUrl;
    this._signedQuery(params['service'] || URLS.JS_PAY, params, { required: requiredData }, callback);
  };
  \<close>
\<close>

definition unifiedOrder_required :: "string list" where
  "unifiedOrder_required =
     [''body'', ''out_trade_no'', ''total_fee'', ''mch_create_ip'', ''mch_id'', ''service'']"

definition unifiedOrder :: "env \<Rightarrow> account \<Rightarrow> string \<Rightarrow> jsobj \<Rightarrow> event list \<times> outcome" where
  "unifiedOrder e this nonce params =
     (let params1 = set_prop params ''notify_url'' (js_or (get_prop params ''notify_url'') (notifyUrl this))
      in signedQuery e this nonce (js_or (get_prop params1 ''service'') (Str URLS_JS_PAY)) params1
           \<lparr> opt_https = False, opt_required = Some unifiedOrder_required \<rparr>)"

text \<open>
  \<^verbatim>\<open>
  Swiftpass.prototype.orderQuery = function(params, callback) {
    this._signedQuery(URLS.ORDER_QUERY, params, { required: ['transaction_id|out_trade_no'] }, callback);
  };
  \<close>
\<close>

definition orderQuery_required :: "string list" where
  "orderQuery_required = [''transaction_id|out_trade_no'']"

definition orderQuery :: "env \<Rightarrow> account \<Rightarrow> string \<Rightarrow> jsobj \<Rightarrow> event list \<times> outcome" where
  "orderQuery e this nonce params =
     signedQuery e this nonce (Str URLS_ORDER_QUERY) params
       \<lparr> opt_https = False, opt_required = Some orderQuery_required \<rparr>"

text \<open>
  \<^verbatim>\<open>
  Swiftpass.prototype.refund = function(params, callback) {
    params = this._extendWithDefault(params, ['op_user_id']);
    this._signedQuery(URLS.REFUND, params, {
      https: true,
      required: ['transaction_id|out_trade_no', 'out_refund_no', 'total_fee', 'refund_fee']
    }, callback);
  };
  \<close>
  Two nonces are generated: one in the call of \<^verbatim>\<open>_extendWithDefault\<close> here, one in the
  signed query.
\<close>

definition refund_required :: "string list" where
  "refund_required =
     [''transaction_id|out_trade_no'', ''out_refund_no'', ''total_fee'', ''refund_fee'']"

definition refund ::
  "env \<Rightarrow> account \<Rightarrow> string \<Rightarrow> string \<Rightarrow> jsobj \<Rightarrow> event list \<times> outcome" where
  "refund e this nonce0 nonce params =
     (let params1 = extendWithDefault this nonce0 params [''op_user_id'']
      in signedQuery e this nonce (Str URLS_REFUND) params1
           \<lparr> opt_https = True, opt_required = Some refund_required \<rparr>)"

text \<open>
  \<^verbatim>\<open>
  Swiftpass.prototype.refundQuery = function(params, callback) {
    this._signedQuery(URLS.REFUND_QUERY, params, {
      required: ['transaction_id|out_trade_no|out_refund_no|refund_id']
    }, callback);
  };
  Swiftpass.prototype.closeOrder = function(params, callback) {
    this._signedQuery(URLS.CLOSE_ORDER, params, { required: ['out_trade_no'] }, callback);
  };
  \<close>
\<close>

definition refundQuery_required :: "string list" where
  "refundQuery_required = [''transaction_id|out_trade_no|out_refund_no|refund_id'']"

definition refundQuery :: "env \<Rightarrow> account \<Rightarrow> string \<Rightarrow> jsobj \<Rightarrow> event list \<times> outcome" where
  "refundQuery e this nonce params =
     signedQuery e this nonce (Str URLS_REFUND_QUERY) params
       \<lparr> opt_https = False, opt_required = Some refundQuery_required \<rparr>"

definition closeOrder_required :: "string list" where
  "closeOrder_required = [''out_trade_no'']"

definition closeOrder :: "env \<Rightarrow> account \<Rightarrow> string \<Rightarrow> jsobj \<Rightarrow> event list \<times> outcome" where
  "closeOrder e this nonce params =
     signedQuery e this nonce (Str URLS_CLOSE_ORDER) params
       \<lparr> opt_https = False, opt_required = Some closeOrder_required \<rparr>"

text \<open>
  The five operations as one function. \<open>nonce0\<close> is the nonce generated by the call of
  \<^verbatim>\<open>_extendWithDefault\<close> in \<^verbatim>\<open>refund\<close>; the other operations make no such call.
\<close>

datatype operation = UnifiedOrder | OrderQuery | Refund | RefundQuery | CloseOrder

fun transaction ::
  "operation \<Rightarrow> env \<Rightarrow> account \<Rightarrow> string \<Rightarrow> string \<Rightarrow> jsobj \<Rightarrow> event list \<times> outcome" where
  "transaction UnifiedOrder e this nonce0 nonce params = unifiedOrder e this nonce params"
| "transaction OrderQuery e this nonce0 nonce params = orderQuery e this nonce params"
| "transaction Refund e this nonce0 nonce params = refund e this nonce0 nonce params"
| "transaction RefundQuery e this nonce0 nonce params = refundQuery e this nonce params"
| "transaction CloseOrder e this nonce0 nonce params = closeOrder e this nonce params"

section \<open>The report decoder\<close>

text \<open>
  \<^verbatim>\<open>text.trim()\<close> removes the white space and line terminator characters at both ends:
  tab, line feed, vertical tab, form feed, carriage return, space, U+00A0, U+1680, U+2000 to
  U+200A, U+2028, U+2029, U+202F, U+205F, U+3000 and U+FEFF, here in their UTF-8 bytes.
  \<^verbatim>\<open>split(/\r?\n/)\<close> cuts at every line feed, together with a carriage return right before it.
\<close>

definition white_space :: "string list" where
  "white_space =
     [[CHR 0x09], [CHR 0x0A], [CHR 0x0B], [CHR 0x0C], [CHR 0x0D], [CHR 0x20],
      [CHR 0xC2, CHR 0xA0],
      [CHR 0xE1, CHR 0x9A, CHR 0x80],
      [CHR 0xE2, CHR 0x80, CHR 0x80], [CHR 0xE2, CHR 0x80, CHR 0x81],
      [CHR 0xE2, CHR 0x80, CHR 0x82], [CHR 0xE2, CHR 0x80, CHR 0x83],
      [CHR 0xE2, CHR 0x80, CHR 0x84], [CHR 0xE2, CHR 0x80, CHR 0x85],
      [CHR 0xE2, CHR 0x80, CHR 0x86], [CHR 0xE2, CHR 0x80, CHR 0x87],
      [CHR 0xE2, CHR 0x80, CHR 0x88], [CHR 0xE2, CHR 0x80, CHR 0x89],
      [CHR 0xE2, CHR 0x80, CHR 0x8A],
      [CHR 0xE2, CHR 0x80, CHR 0xA8], [CHR 0xE2, CHR 0x80, CHR 0xA9],
      [CHR 0xE2, CHR 0x80, CHR 0xAF],
      [CHR 0xE2, CHR 0x81, CHR 0x9F],
      [CHR 0xE3, CHR 0x80, CHR 0x80],
      [CHR 0xEF, CHR 0xBB, CHR 0xBF]]"

text \<open>The number of bytes of the white space character a string starts with, or 0.\<close>

definition leading_space :: "string list \<Rightarrow> string \<Rightarrow> nat" where
  "leading_space ws s =
     (case find (\<lambda>w. take (length w) s = w) ws of None \<Rightarrow> 0 | Some w \<Rightarrow> length w)"

function strip_leading :: "string list \<Rightarrow> string \<Rightarrow> string" where
  "strip_leading ws s =
     (if s = [] then s
      else if leading_space ws s = 0 then s
      else strip_leading ws (drop (leading_space ws s) s))"
  by pat_completeness auto
termination
  by (relation \<open>measure (\<lambda>p. length (snd p))\<close>) auto

declare strip_leading.simps [simp del]

text \<open>At the end of the string the same characters are matched backwards.\<close>

definition trim :: "string \<Rightarrow> string" where
  "trim s = rev (strip_leading (map rev white_space) (rev (strip_leading white_space s)))"

definition push_char :: "char \<Rightarrow> string list \<Rightarrow> string list" where
  "push_char c parts = (case parts of [] \<Rightarrow> [[c]] | part # rest \<Rightarrow> (c # part) # rest)"

fun split_lines :: "string \<Rightarrow> string list" where
  "split_lines [] = [[]]"
| "split_lines [c] = (if c = CHR 0x0A then [[], []] else [[c]])"
| "split_lines (c # d # cs) =
     (if c = CHR 0x0D \<and> d = CHR 0x0A then [] # split_lines cs
      else if c = CHR 0x0A then [] # split_lines (d # cs)
      else push_char c (split_lines (d # cs)))"

text \<open>
  \<^verbatim>\<open>xs.slice(start, end)\<close>: a negative index counts from the end, and both are clamped to
  the array.
\<close>

definition js_slice :: "'a list \<Rightarrow> int \<Rightarrow> int \<Rightarrow> 'a list" where
  "js_slice xs start end' =
     (let n = int (length xs);
          k = (if start < 0 then max (n + start) 0 else min start n);
          f = (if end' < 0 then max (n + end') 0 else min end' n)
      in take (nat (f - k)) (drop (nat k) xs))"

text \<open>
  \<^verbatim>\<open>
  function toArr(rows) {
    var titles = rows[0].split(',');
    var bodys = rows.splice(1);
    var data = [];
    bodys.forEach(function(row) {
      var rowData = {};
      row.split(',').forEach(function(cell, i) {
        rowData[titles[i]] = cell.split('`')[1];
      });
      data.push(rowData);
    });
    return data;
  }
  \<close>
  \<^verbatim>\<open>rows[0]\<close> of an empty array is undefined, and \<^verbatim>\<open>split\<close> of undefined raises a
  TypeError; \<^verbatim>\<open>titles[i]\<close> beyond the titles is undefined, which as a key is the string
  \<open>undefined\<close>; element 1 of a split with no second part is undefined.
\<close>

definition cell_value :: "string \<Rightarrow> jsval" where
  "cell_value cell =
     (case split_on (CHR 0x60) cell of
        a # b # rest \<Rightarrow> Str b
      | parts \<Rightarrow> Undefined)"

definition title_key :: "string list \<Rightarrow> nat \<Rightarrow> string" where
  "title_key titles i = (if i < length titles then titles ! i else ''undefined'')"

definition rowData :: "string list \<Rightarrow> string \<Rightarrow> jsobj" where
  "rowData titles row =
     (let cells = split_on CHR '','' row
      in fold (\<lambda>ic acc. set_prop acc (title_key titles (fst ic)) (cell_value (snd ic)))
           (zip [0 ..< length cells] cells) [])"

definition toArr :: "string list \<Rightarrow> js_exception + jsobj list" where
  "toArr rows =
     (case rows of
        [] \<Rightarrow> Inl TypeError
      | row0 # bodys \<Rightarrow> Inr (map (rowData (split_on CHR '','' row0)) bodys))"

text \<open>
  \<^verbatim>\<open>
  Swiftpass.prototype.parseCsv = function(text) {
    var rows = text.trim().split(/\r?\n/);
    ...
    return {
      list: toArr(rows.slice(0, rows.length - 2)),
      stat: toArr(rows.slice(rows.length - 2, rows.length))[0]
    };
  };
  \<close>
\<close>

record report =
  list :: "jsobj list"
  stat :: jsval

definition parseCsv :: "string \<Rightarrow> js_exception + report" where
  "parseCsv input =
     (let rows = split_lines (trim input);
          n = int (length rows)
      in case toArr (js_slice rows 0 (n - 2)) of
           Inl ex \<Rightarrow> Inl ex
         | Inr data \<Rightarrow>
             (case toArr (js_slice rows (n - 2) n) of
                Inl ex \<Rightarrow> Inl ex
              | Inr stats \<Rightarrow>
                  Inr \<lparr> list = data,
                        stat = (case stats of [] \<Rightarrow> Undefined | first # rest \<Rightarrow> Obj first) \<rparr>))"

section \<open>Notions used in the statements\<close>

text \<open>
  The values the variable \<^verbatim>\<open>params\<close> of \<^verbatim>\<open>_signedQuery\<close> holds on its way: after the defaults
  are merged in (where it is signed), and when the required groups are checked (which is
  also what the builder is given). \<open>sign_input\<close> is the string \<^verbatim>\<open>_getSign\<close> digests.
\<close>

definition defaulted_params :: "account \<Rightarrow> string \<Rightarrow> jsval \<Rightarrow> jsobj \<Rightarrow> jsobj" where
  "defaulted_params this nonce url params =
     extendWithDefault this nonce (set_prop params ''service'' url)
       [''mch_id'', ''nonce_str'', ''sub_appid'']"

definition sign_input :: "account \<Rightarrow> jsobj \<Rightarrow> string" where
  "sign_input this pkg =
     toQueryString (delete_prop pkg ''sign'') @ ''&key='' @ js_to_string (partnerKey this)"

definition checked_params :: "env \<Rightarrow> account \<Rightarrow> string \<Rightarrow> jsval \<Rightarrow> jsobj \<Rightarrow> jsobj" where
  "checked_params e this nonce url params =
     (let params2 = defaulted_params this nonce url params;
          params3 =
            underscore_extend [(''sign'', Str (toUpperCase (md5 e (sign_input this params2))))] params2;
          params4 =
            (if truthy (get_prop params3 ''long_url'')
             then set_prop params3 ''long_url''
                    (Str (encodeURIComponent e (js_to_string (get_prop params3 ''long_url''))))
             else params3)
      in stringify_values params4)"

text \<open>What each operation hands to the signed query.\<close>

fun query_url :: "operation \<Rightarrow> account \<Rightarrow> jsobj \<Rightarrow> jsval" where
  "query_url UnifiedOrder this params =
     js_or (get_prop (set_prop params ''notify_url''
                        (js_or (get_prop params ''notify_url'') (notifyUrl this))) ''service'')
       (Str URLS_JS_PAY)"
| "query_url OrderQuery this params = Str URLS_ORDER_QUERY"
| "query_url Refund this params = Str URLS_REFUND"
| "query_url RefundQuery this params = Str URLS_REFUND_QUERY"
| "query_url CloseOrder this params = Str URLS_CLOSE_ORDER"

fun query_params :: "operation \<Rightarrow> account \<Rightarrow> string \<Rightarrow> jsobj \<Rightarrow> jsobj" where
  "query_params UnifiedOrder this nonce0 params =
     set_prop params ''notify_url'' (js_or (get_prop params ''notify_url'') (notifyUrl this))"
| "query_params Refund this nonce0 params = extendWithDefault this nonce0 params [''op_user_id'']"
| "query_params OrderQuery this nonce0 params = params"
| "query_params RefundQuery this nonce0 params = params"
| "query_params CloseOrder this nonce0 params = params"

fun required_groups :: "operation \<Rightarrow> string list" where
  "required_groups UnifiedOrder = unifiedOrder_required"
| "required_groups OrderQuery = orderQuery_required"
| "required_groups Refund = refund_required"
| "required_groups RefundQuery = refundQuery_required"
| "required_groups CloseOrder = closeOrder_required"

fun uses_https :: "operation \<Rightarrow> bool" where
  "uses_https Refund = True"
| "uses_https UnifiedOrder = False"
| "uses_https OrderQuery = False"
| "uses_https RefundQuery = False"
| "uses_https CloseOrder = False"

definition signed_params :: "operation \<Rightarrow> account \<Rightarrow> string \<Rightarrow> string \<Rightarrow> jsobj \<Rightarrow> jsobj" where
  "signed_params opn this nonce0 nonce params =
     defaulted_params this nonce (query_url opn this params) (query_params opn this nonce0 params)"

definition request_params ::
  "operation \<Rightarrow> env \<Rightarrow> account \<Rightarrow> string \<Rightarrow> string \<Rightarrow> jsobj \<Rightarrow> jsobj" where
  "request_params opn e this nonce0 nonce params =
     checked_params e this nonce (query_url opn this params) (query_params opn this nonce0 params)"

text \<open>The call of the transport an operation uses, as it is recorded.\<close>

definition transport_event :: "operation \<Rightarrow> string \<Rightarrow> event" where
  "transport_event opn body = (if uses_https opn then EvHttps URL body else EvHttp URL body)"

definition transport_reply :: "operation \<Rightarrow> env \<Rightarrow> account \<Rightarrow> string \<Rightarrow> js_error + string" where
  "transport_reply opn e this body =
     (if uses_https opn then https_post e (pfx this) (passphrase this) URL body
      else request_post e URL body)"

section \<open>Concrete inputs\<close>

text \<open>
  An account, and an environment whose digests are the identity and the reversal, whose
  builder always answers \<open><xml/>\<close>, whose transports always deliver a body, and whose parser
  rejects the unclosed \<open><xml>\<close>, gives no document for the empty body, reads \<open><html/>\<close> as a
  document with the root \<open>html\<close>, one response without a \<open>pay_info\<close> field as it is, and
  every other body as a response with a \<open>pay_info\<close> field.
\<close>

definition test_account :: account where
  "test_account =
     \<lparr> subAppId = Str ''wx1'', partnerKey = Str ''secret'', mchId = Str ''Y'',
       notifyUrl = Undefined, passphrase = Str ''Y'', pfx = Undefined, subMchId = Undefined \<rparr>"

definition test_env :: env where
  "test_env =
     \<lparr> md5 = (\<lambda>s. s), sha1 = rev, encodeURIComponent = (\<lambda>s. s),
       buildObject = (\<lambda>obj. ''<xml/>''),
       request_post = (\<lambda>url body. Inr ''body''),
       https_post = (\<lambda>cert pass url body. Inr ''body''),
       parseString =
         (\<lambda>s. if s = ''<xml>'' then Inl (ErrorObj ''Error'' ''Unclosed root tag'')
              else if s = [] then Inr Null
              else if s = ''<html/>'' then Inr (Obj [(''html'', Str [])])
              else if s = ''<xml><return_code>SUCCESS</return_code></xml>''
                then Inr (Obj [(''xml'', Obj [(''return_code'', Str ''SUCCESS'')])])
              else Inr (Obj [(''xml'', Obj [(''pay_info'', Str ''{}'')])])) \<rparr>"

text \<open>The report of the specification's example: four rows, separated by CR LF.\<close>

definition csv_example :: string where
  "csv_example =
     ''h1,h2'' @ [CHR 0x0D, CHR 0x0A]
     @ ''x'' @ [CHR 0x60] @ ''1,y'' @ [CHR 0x60] @ ''2'' @ [CHR 0x0D, CHR 0x0A]
     @ ''s1'' @ [CHR 0x60] @ ''A,s2'' @ [CHR 0x60] @ ''B'' @ [CHR 0x0D, CHR 0x0A]
     @ ''s1'' @ [CHR 0x60] @ ''C,s2'' @ [CHR 0x60] @ ''D''"

section \<open>Objects: reading, writing, merging\<close>

lemma digits_nonempty: "digits n \<noteq> []"
  by (subst digits.simps) simp

lemma js_to_string_empty:
  "v \<noteq> Undefined \<Longrightarrow> v \<noteq> Null \<Longrightarrow> js_to_string v = [] \<longleftrightarrow> v = Str []"
  by (cases v) (auto simp: digits_nonempty)

lemma get_prop_Nil: "get_prop [] k = Undefined"
  by (simp add: get_prop_def)

lemma get_prop_Cons: "get_prop (p # ps) k = (if k = fst p then snd p else get_prop ps k)"
  by (cases p) (simp add: get_prop_def)



lemma get_prop_eq_of_set:
  assumes "wf_obj a" "wf_obj b" "set a = set b"
  shows "get_prop a = get_prop b"
proof -
  have "map_of a = map_of b"
    using assms by (simp add: wf_obj_def map_of_inject_set)
  then show ?thesis by (simp add: get_prop_def fun_eq_iff)
qed

lemma wf_Nil: "wf_obj []"
  by (simp add: wf_obj_def)

lemma set_insert_index: "set (insert_index n k v obj) = insert (k, v) (set obj)"
  by (induction obj) (auto split: option.splits)

lemma map_of_insert_index:
  "k \<notin> fst ` set obj \<Longrightarrow> map_of (insert_index n k v obj) = (map_of obj)(k \<mapsto> v)"
proof (induction obj)
  case Nil
  then show ?case by simp
next
  case (Cons p ps)
  then have ne: "fst p \<noteq> k" and nin: "k \<notin> fst ` set ps" by auto
  show ?case
    using Cons.IH [OF nin] ne by (cases p) (auto simp: fun_eq_iff split: option.splits)
qed

lemma distinct_insert_index:
  "k \<notin> fst ` set obj \<Longrightarrow> distinct (map fst obj) \<Longrightarrow> distinct (map fst (insert_index n k v obj))"
proof (induction obj)
  case Nil
  then show ?case by simp
next
  case (Cons p ps)
  then have ne: "fst p \<noteq> k" and nin: "k \<notin> fst ` set ps"
    and d: "distinct (map fst ps)" and pn: "fst p \<notin> fst ` set ps" by auto
  have "fst p \<notin> fst ` set (insert_index n k v ps)"
    using pn ne by (simp add: set_insert_index)
  then show ?case
    using Cons.IH [OF nin d] ne nin pn d by (auto split: option.splits)
qed

lemma filter_insert_index:
  "filter (\<lambda>p. fst p \<noteq> k) (insert_index n k v obj) = filter (\<lambda>p. fst p \<noteq> k) obj"
  by (induction obj) (auto split: option.splits)

lemma map_of_replace:
  "map_of (map (\<lambda>p. if fst p = k then (k, v) else p) obj) k' =
     (if k' = k then map_option (\<lambda>x. v) (map_of obj k) else map_of obj k')"
  by (induction obj) auto

lemma keys_replace: "map fst (map (\<lambda>p. if fst p = k then (k, v) else p) obj) = map fst obj"
  by (induction obj) auto

lemma filter_replace:
  "filter (\<lambda>p. fst p \<noteq> k) (map (\<lambda>p. if fst p = k then (k, v) else p) obj)
      = filter (\<lambda>p. fst p \<noteq> k) obj"
  by (induction obj) auto

lemma map_of_set_prop: "map_of (set_prop obj k v) = (map_of obj)(k \<mapsto> v)"
proof (cases "k \<in> fst ` set obj")
  case True
  then obtain x where "map_of obj k = Some x"
    by (metis domD dom_map_of_conv_image_fst)
  then show ?thesis
    using True by (auto simp: set_prop_def map_of_replace fun_eq_iff)
next
  case False
  then have n: "map_of obj k = None" by (simp add: map_of_eq_None_iff)
  have "map_of (obj @ [(k, v)]) = (map_of obj)(k \<mapsto> v)"
    using n by (auto simp: fun_eq_iff map_add_def split: option.splits)
  then show ?thesis
    using False by (simp add: set_prop_def map_of_insert_index split: option.splits)
qed

lemma get_prop_set_prop:
  "get_prop (set_prop obj k v) k' = (if k' = k then v else get_prop obj k')"
  by (simp add: get_prop_def map_of_set_prop)

lemma key_set_set_prop: "fst ` set (set_prop obj k v) = insert k (fst ` set obj)"
proof -
  have "dom (map_of (set_prop obj k v)) = insert k (dom (map_of obj))"
    by (simp add: map_of_set_prop)
  then show ?thesis by (simp add: dom_map_of_conv_image_fst)
qed

lemma wf_set_prop: "wf_obj obj \<Longrightarrow> wf_obj (set_prop obj k v)"
  unfolding wf_obj_def set_prop_def
  by (simp only: keys_replace split: option.splits if_splits)
     (auto simp: distinct_insert_index)

lemma delete_set_prop: "delete_prop (set_prop obj k v) k = delete_prop obj k"
  by (auto simp: delete_prop_def set_prop_def filter_insert_index filter_replace split: option.splits)

lemma set_prop_Nil: "set_prop [] k v = [(k, v)]"
  by (simp add: set_prop_def split: option.splits)

lemma set_prop_head: "set_prop [(k, v)] k w = [(k, w)]"
  by (simp add: set_prop_def)

lemma delete_delete: "delete_prop (delete_prop obj k) k = delete_prop obj k"
  by (simp add: delete_prop_def)

lemma wf_delete: "wf_obj obj \<Longrightarrow> wf_obj (delete_prop obj k)"
  by (simp add: wf_obj_def delete_prop_def distinct_map_filter)

lemma extend_Cons:
  "underscore_extend dest (p # ps) = underscore_extend (set_prop dest (fst p) (snd p)) ps"
  by (simp add: underscore_extend_def)

text \<open>Merging a well-formed object over another: its own keys read as in it, the others as before.\<close>

lemma get_prop_extend:
  "wf_obj src \<Longrightarrow>
   get_prop (underscore_extend dest src) k =
     (if k \<in> fst ` set src then get_prop src k else get_prop dest k)"
proof (induction src arbitrary: dest)
  case Nil
  then show ?case by (simp add: underscore_extend_def)
next
  case (Cons p ps)
  then have wf: "wf_obj ps" and nin: "fst p \<notin> set (map fst ps)"
    by (simp_all add: wf_obj_def)
  show ?case
    using Cons.IH [OF wf, of "set_prop dest (fst p) (snd p)"] nin
    by (auto simp: extend_Cons get_prop_set_prop get_prop_Cons)
qed

lemma keys_extend:
  "fst ` set (underscore_extend dest src) = fst ` set dest \<union> fst ` set src"
proof (induction src arbitrary: dest)
  case Nil
  then show ?case by (simp add: underscore_extend_def)
next
  case (Cons p ps)
  show ?case
    unfolding extend_Cons Cons.IH by (auto simp: key_set_set_prop)
qed

lemma wf_extend: "wf_obj dest \<Longrightarrow> wf_obj (underscore_extend dest src)"
proof (induction src arbitrary: dest)
  case Nil
  then show ?case by (simp add: underscore_extend_def)
next
  case (Cons p ps)
  then show ?case by (simp add: extend_Cons wf_set_prop)
qed

lemma get_prop_stringify:
  "get_prop (stringify_values obj) k =
     (let v = get_prop obj k
      in if v \<noteq> Undefined \<and> v \<noteq> Null then Str (js_to_string v) else v)"
  by (induction obj) (auto simp: get_prop_def stringify_values_def Let_def)

lemma keys_stringify: "map fst (stringify_values obj) = map fst obj"
  by (simp add: stringify_values_def comp_def)

lemma delete_stringify:
  "delete_prop (stringify_values obj) k = stringify_values (delete_prop obj k)"
  by (simp add: delete_prop_def stringify_values_def filter_map comp_def)

section \<open>Properties of the canonical query encoder\<close>

lemma toQueryString_order:
  assumes "wf_obj a" "wf_obj b" "set a = set b"
  shows "toQueryString a = toQueryString b"
proof -
  have g: "get_prop a = get_prop b" by (rule get_prop_eq_of_set [OF assms])
  let ?P = "\<lambda>key. get_prop b key \<noteq> Undefined \<and> get_prop b key \<noteq> Str []"
  have "sort (filter ?P (map fst a)) = sort (filter ?P (map fst b))"
  proof (rule sorted_distinct_set_unique)
    show "set (sort (filter ?P (map fst a))) = set (sort (filter ?P (map fst b)))"
      using assms(3) by simp
  qed (use assms in \<open>simp_all add: wf_obj_def\<close>)
  then show ?thesis by (simp add: toQueryString_def Object_keys_def g)
qed

lemma toQueryString_sorted_set:
  assumes "wf_obj obj"
  shows "toQueryString obj =
     join ''&'' (map (\<lambda>k. k @ ''='' @ js_to_string (get_prop obj k))
       (sorted_list_of_set
          {k \<in> set (Object_keys obj). get_prop obj k \<noteq> Undefined \<and> get_prop obj k \<noteq> Str []}))"
proof -
  let ?P = "\<lambda>key. get_prop obj key \<noteq> Undefined \<and> get_prop obj key \<noteq> Str []"
  have d: "distinct (filter ?P (map fst obj))" using assms by (simp add: wf_obj_def)
  have "sorted_list_of_set (set (filter ?P (map fst obj))) = sort (filter ?P (map fst obj))"
    using d by (simp only: sorted_list_of_set_sort_remdups distinct_remdups_id)
  moreover have "{k \<in> set (Object_keys obj). ?P k} = set (filter ?P (map fst obj))"
    by (auto simp: Object_keys_def)
  ultimately show ?thesis unfolding toQueryString_def Object_keys_def by simp
qed

lemma toQueryString_stringify: "toQueryString (stringify_values obj) = toQueryString obj"
proof -
  have 1: "(get_prop (stringify_values obj) k \<noteq> Undefined \<and> get_prop (stringify_values obj) k \<noteq> Str [])
        = (get_prop obj k \<noteq> Undefined \<and> get_prop obj k \<noteq> Str [])" for k
    by (auto simp: get_prop_stringify Let_def js_to_string_empty)
  have 2: "js_to_string (get_prop (stringify_values obj) k) = js_to_string (get_prop obj k)" for k
    by (auto simp: get_prop_stringify Let_def)
  show ?thesis
    by (simp add: toQueryString_def Object_keys_def keys_stringify 1 2)
qed

text \<open>
  C3. The canonical query encoder is to leave out every key whose value is undefined, null
  or the empty string. For null it does not: the mapping \<open>{a: null}\<close> is encoded as
  \<open>a=null\<close>, unlike the empty mapping, although the coercion loop of the signed query leaves
  that null as it is and the check of the required groups counts the key as missing.
\<close>

theorem toQueryString_null_not_omitted:
  "toQueryString [(''a'', Null)] = ''a=null''
   \<and> toQueryString [(''a'', Null)] \<noteq> toQueryString []
   \<and> stringify_values [(''a'', Null)] = [(''a'', Null)]
   \<and> missing_groups (stringify_values [(''a'', Null)]) [''a''] = [''a'']"
  by (simp add: toQueryString_def Object_keys_def get_prop_def stringify_values_def missing_groups_def)

section \<open>Properties of the signature\<close>

text \<open>
  C1. For every field mapping and secret, the signature is the upper-cased digest of the
  canonical string of the mapping without its \<open>sign\<close> key, followed by \<open>&key=\<close> and the
  secret; the digest is MD5 when no algorithm is named (or MD5 is), SHA1 when SHA1 is; and
  that one digest call is the only call made.
\<close>

theorem getSign_digest_of_canonical_string:
  "getSign e this pkg None =
     ([EvDigest ''MD5''
         (toQueryString [p \<leftarrow> pkg. fst p \<noteq> ''sign''] @ ''&key='' @ js_to_string (partnerKey this))],
      Inr (sign_spec (md5 e) (js_to_string (partnerKey this)) pkg))
   \<and> getSign e this pkg (Some ''MD5'') = getSign e this pkg None
   \<and> getSign e this pkg (Some ''SHA1'') =
     ([EvDigest ''SHA1''
         (toQueryString [p \<leftarrow> pkg. fst p \<noteq> ''sign''] @ ''&key='' @ js_to_string (partnerKey this))],
      Inr (sign_spec (sha1 e) (js_to_string (partnerKey this)) pkg))"
  by (simp add: getSign_def signTypes_def sign_spec_def underscore_clone_def delete_prop_def Let_def)

theorem getSign_digest_witness:
  "snd (getSign test_env test_account
          [(''b'', Num 2), (''sign'', Str ''old''), (''a'', Str ''x'')] None)
     = Inr ''A=X&B=2&KEY=SECRET''
   \<and> snd (getSign test_env test_account
          [(''b'', Num 2), (''sign'', Str ''old''), (''a'', Str ''x'')] (Some ''SHA1''))
     = Inr ''TERCES=YEK&2=B&X=A''"
  using getSign_digest_of_canonical_string [of test_env test_account
          "[(''b'', Num 2), (''sign'', Str ''old''), (''a'', Str ''x'')]"]
  by (simp add: sign_spec_def test_env_def test_account_def toQueryString_def Object_keys_def
        get_prop_def digits.simps toUpperCase_def upper_char_def)

text \<open>
  C4. Two well-formed mappings with the same keys and the same values, in whatever order,
  get the same signature under the same account; and setting a \<open>sign\<close> key to any value, or
  deleting it, leaves the signature of a mapping unchanged.
\<close>

theorem getSign_order_and_sign_independent:
  "(wf_obj a \<and> wf_obj b \<and> set a = set b \<longrightarrow> getSign e this a signType = getSign e this b signType)
   \<and> getSign e this (set_prop pkg ''sign'' v) signType = getSign e this pkg signType
   \<and> getSign e this (delete_prop pkg ''sign'') signType = getSign e this pkg signType"
proof -
  have "toQueryString (delete_prop a ''sign'') = toQueryString (delete_prop b ''sign'')"
    if "wf_obj a" "wf_obj b" "set a = set b"
    using that by (intro toQueryString_order wf_delete) (simp_all add: delete_prop_def)
  then show ?thesis
    by (simp add: getSign_def underscore_clone_def delete_set_prop delete_delete)
qed

theorem getSign_order_and_sign_witness:
  "wf_obj [(''b'', Num 2), (''a'', Num 1)] \<and> wf_obj [(''a'', Num 1), (''b'', Num 2)]
   \<and> set [(''b'', Num 2), (''a'', Num 1)] = set [(''a'', Num 1), (''b'', Num 2)]
   \<and> getSign test_env test_account [(''b'', Num 2), (''a'', Num 1)] None
       = getSign test_env test_account [(''a'', Num 1), (''b'', Num 2)] None
   \<and> getSign test_env test_account [(''a'', Num 1), (''b'', Num 2), (''sign'', Str ''s'')] None
       = getSign test_env test_account [(''a'', Num 1), (''b'', Num 2)] None"
proof -
  have w1: "wf_obj [(''b'', Num 2), (''a'', Num 1)]" by (simp add: wf_obj_def)
  have w2: "wf_obj [(''a'', Num 1), (''b'', Num 2)]" by (simp add: wf_obj_def)
  have s: "set [(''b'', Num 2), (''a'', Num 1)] = set [(''a'', Num 1), (''b'', Num 2)]" by auto
  note t = getSign_order_and_sign_independent [of "[(''b'', Num 2), (''a'', Num 1)]"
     "[(''a'', Num 1), (''b'', Num 2)]" test_env test_account None
     "[(''a'', Num 1), (''b'', Num 2)]" "Str ''s''"]
  from t w1 w2 s
  have 1: "getSign test_env test_account [(''b'', Num 2), (''a'', Num 1)] None
       = getSign test_env test_account [(''a'', Num 1), (''b'', Num 2)] None"
    by blast
  have sp: "set_prop [(''a'', Num 1), (''b'', Num 2)] ''sign'' (Str ''s'')
      = [(''a'', Num 1), (''b'', Num 2), (''sign'', Str ''s'')]"
    by code_simp
  from t
  have 2: "getSign test_env test_account [(''a'', Num 1), (''b'', Num 2), (''sign'', Str ''s'')] None
       = getSign test_env test_account [(''a'', Num 1), (''b'', Num 2)] None"
    unfolding sp by blast
  from w1 w2 s 1 2 show ?thesis by simp
qed

text \<open>
  C8. The signature of a parameter mapping is the signature of the same mapping with every
  value that is neither undefined nor null replaced by its string form: signing before the
  coercion and signing after it give the same result.
\<close>

theorem getSign_before_and_after_stringify:
  "getSign e this (stringify_values params) signType = getSign e this params signType"
  by (simp add: getSign_def underscore_clone_def delete_stringify toQueryString_stringify)

theorem getSign_stringify_witness:
  "stringify_values [(''total_fee'', Num 100), (''ok'', Bool True), (''n'', Null), (''body'', Str ''x'')]
     = [(''total_fee'', Str ''100''), (''ok'', Str ''true''), (''n'', Null), (''body'', Str ''x'')]
   \<and> getSign test_env test_account
        [(''total_fee'', Str ''100''), (''ok'', Str ''true''), (''n'', Null), (''body'', Str ''x'')] None
     = getSign test_env test_account
        [(''total_fee'', Num 100), (''ok'', Bool True), (''n'', Null), (''body'', Str ''x'')] None"
proof -
  have c: "stringify_values [(''total_fee'', Num 100), (''ok'', Bool True), (''n'', Null), (''body'', Str ''x'')]
     = [(''total_fee'', Str ''100''), (''ok'', Str ''true''), (''n'', Null), (''body'', Str ''x'')]"
    by (simp add: stringify_values_def digits.simps)
  from getSign_before_and_after_stringify [of test_env test_account
      "[(''total_fee'', Num 100), (''ok'', Bool True), (''n'', Null), (''body'', Str ''x'')]" None] c
  show ?thesis by simp
qed

section \<open>Properties of the default expansion\<close>

lemma get_prop_fold_defaults:
  "get_prop
     (fold (\<lambda>k acc. if truthy (get_prop d k) then set_prop acc k (get_prop d k) else acc) ks acc0) k =
     (if k \<in> set ks \<and> truthy (get_prop d k) then get_prop d k else get_prop acc0 k)"
  by (induction ks arbitrary: acc0) (auto simp: get_prop_set_prop)

lemma keys_fold_defaults:
  "fst ` set
     (fold (\<lambda>k acc. if truthy (get_prop d k) then set_prop acc k (get_prop d k) else acc) ks acc0) =
     fst ` set acc0 \<union> {k \<in> set ks. truthy (get_prop d k)}"
proof (induction ks arbitrary: acc0)
  case Nil
  then show ?case by simp
next
  case (Cons a ks)
  then show ?case by (auto simp: key_set_set_prop)
qed

lemma wf_fold_defaults:
  "wf_obj acc0 \<Longrightarrow>
   wf_obj (fold (\<lambda>k acc. if truthy (get_prop d k) then set_prop acc k (get_prop d k) else acc) ks acc0)"
  by (induction ks arbitrary: acc0) (auto simp: wf_set_prop)

lemma get_prop_extendWithDefault:
  assumes "wf_obj obj"
  shows "get_prop (extendWithDefault this nonce obj ks) k =
      (if k \<in> set (Object_keys obj) then get_prop obj k
       else if k \<in> set ks \<and> truthy (get_prop (defaults this nonce) k)
            then get_prop (defaults this nonce) k
            else Undefined)"
  using assms
  by (simp add: extendWithDefault_def Let_def get_prop_extend get_prop_fold_defaults Object_keys_def
        get_prop_Nil)

lemma keys_extendWithDefault:
  "fst ` set (extendWithDefault this nonce obj ks) =
     {k \<in> set ks. truthy (get_prop (defaults this nonce) k)} \<union> fst ` set obj"
  by (auto simp: extendWithDefault_def Let_def keys_extend keys_fold_defaults)

lemma wf_extendWithDefault: "wf_obj (extendWithDefault this nonce obj ks)"
  by (simp add: extendWithDefault_def Let_def wf_extend wf_fold_defaults wf_Nil)

text \<open>
  C9. For every well-formed parameter mapping and every whitelist, the expanded mapping
  reads, at a key the caller supplies, the caller's value, and at any other key the account
  default if the key is whitelisted and its default is truthy, and nothing otherwise; its
  keys are the caller's keys and those whitelisted keys. With account merchant id \<open>Y\<close>,
  expanding \<open>{mch_id: 'X'}\<close> over the whitelist \<open>['mch_id']\<close> yields \<open>{mch_id: 'X'}\<close>.
\<close>

theorem extendWithDefault_caller_wins:
  "(wf_obj obj \<longrightarrow>
      get_prop (extendWithDefault this nonce obj ks) k =
        (if k \<in> set (Object_keys obj) then get_prop obj k
         else if k \<in> set ks \<and> truthy (get_prop (defaults this nonce) k)
              then get_prop (defaults this nonce) k
              else Undefined))
   \<and> set (Object_keys (extendWithDefault this nonce obj ks)) =
       {k \<in> set ks. truthy (get_prop (defaults this nonce) k)} \<union> set (Object_keys obj)
   \<and> (mchId this = Str ''Y'' \<longrightarrow>
        extendWithDefault this nonce [(''mch_id'', Str ''X'')] [''mch_id''] = [(''mch_id'', Str ''X'')])"
proof -
  have "extendWithDefault this nonce [(''mch_id'', Str ''X'')] [''mch_id''] = [(''mch_id'', Str ''X'')]"
    if "mchId this = Str ''Y''"
    using that
    by (simp add: extendWithDefault_def defaults_def get_prop_def underscore_extend_def
          set_prop_Nil set_prop_head)
  moreover have "set (Object_keys (extendWithDefault this nonce obj ks)) =
       {k \<in> set ks. truthy (get_prop (defaults this nonce) k)} \<union> set (Object_keys obj)"
    using keys_extendWithDefault [of this nonce obj ks] by (simp add: Object_keys_def)
  ultimately show ?thesis
    using get_prop_extendWithDefault [of obj this nonce ks k] by blast
qed

theorem extendWithDefault_witness:
  "wf_obj [(''mch_id'', Str ''X'')] \<and> mchId test_account = Str ''Y''
   \<and> get_prop (extendWithDefault test_account ''n'' [(''mch_id'', Str ''X'')] [''mch_id'', ''sub_appid''])
        ''mch_id'' = Str ''X''
   \<and> extendWithDefault test_account ''n'' [(''mch_id'', Str ''X'')] [''mch_id''] = [(''mch_id'', Str ''X'')]
   \<and> extendWithDefault test_account ''n'' [(''mch_id'', Str ''X'')]
        [''mch_id'', ''sub_appid'', ''notify_url'']
        = [(''mch_id'', Str ''X''), (''sub_appid'', Str ''wx1'')]"
proof -
  have w: "wf_obj [(''mch_id'', Str ''X'')]" by (simp add: wf_obj_def)
  have m: "mchId test_account = Str ''Y''" by (simp add: test_account_def)
  note t = extendWithDefault_caller_wins [of "[(''mch_id'', Str ''X'')]" test_account "''n''"
      "[''mch_id'', ''sub_appid'']" "''mch_id''"]
  from t w
  have 1: "get_prop (extendWithDefault test_account ''n'' [(''mch_id'', Str ''X'')] [''mch_id'', ''sub_appid''])
        ''mch_id'' = Str ''X''"
    by (simp add: Object_keys_def get_prop_def)
  from t m
  have 2: "extendWithDefault test_account ''n'' [(''mch_id'', Str ''X'')] [''mch_id''] = [(''mch_id'', Str ''X'')]"
    by blast
  have 3: "extendWithDefault test_account ''n'' [(''mch_id'', Str ''X'')]
        [''mch_id'', ''sub_appid'', ''notify_url'']
        = [(''mch_id'', Str ''X''), (''sub_appid'', Str ''wx1'')]"
    by code_simp
  from w m 1 2 3 show ?thesis by simp
qed

section \<open>Properties of the report decoder\<close>

lemma split_on_first: "d \<notin> set a \<Longrightarrow> split_on d (a @ d # b) = a # split_on d b"
  by (induction a) auto

lemma split_on_takeWhile: "\<exists>rest. split_on d b = takeWhile (\<lambda>c. c \<noteq> d) b # rest"
  by (induction b) (auto split: list.splits)

text \<open>The value of a cell is what stands between its first backtick and the next one, if any.\<close>

lemma cell_value_after_backtick:
  assumes "CHR 0x60 \<notin> set a"
  shows "cell_value (a @ CHR 0x60 # b) = Str (takeWhile (\<lambda>c. c \<noteq> CHR 0x60) b)"
proof -
  obtain rest where "split_on (CHR 0x60) b = takeWhile (\<lambda>c. c \<noteq> CHR 0x60) b # rest"
    using split_on_takeWhile by blast
  then show ?thesis
    using assms by (simp add: cell_value_def split_on_first)
qed

lemma drop_last_two:
  assumes "2 \<le> length xs"
  shows "drop (length xs - 2) xs = [xs ! (length xs - 2), xs ! (length xs - 1)]"
proof (rule nth_equalityI)
  show "length (drop (length xs - 2) xs) = length [xs ! (length xs - 2), xs ! (length xs - 1)]"
    using assms by simp
next
  fix i
  assume "i < length (drop (length xs - 2) xs)"
  then have "i = 0 \<or> i = 1" using assms by auto
  moreover have "length xs - 2 + 1 = length xs - 1" using assms by simp
  ultimately show "drop (length xs - 2) xs ! i = [xs ! (length xs - 2), xs ! (length xs - 1)] ! i"
    using assms by auto
qed

lemma parseCsv_three_rows:
  assumes "3 \<le> length (split_lines (trim input))"
  shows "parseCsv input =
     (let rows = split_lines (trim input); n = length rows
      in Inr \<lparr> list = map (rowData (split_on CHR '','' (rows ! 0))) (take (n - 3) (drop 1 rows)),
              stat = Obj (rowData (split_on CHR '','' (rows ! (n - 2))) (rows ! (n - 1))) \<rparr>)"
proof -
  define rows where "rows = split_lines (trim input)"
  have len: "3 \<le> length rows" using assms by (simp add: rows_def)
  then obtain r0 rest where rows: "rows = r0 # rest" by (cases rows) auto
  have "length rows - 2 = Suc (length rows - 3)" using len by simp
  then have "take (length rows - 2) rows = r0 # take (length rows - 3) rest"
    by (simp add: rows)
  moreover have "js_slice rows 0 (int (length rows) - 2) = take (length rows - 2) rows"
    using len by (simp add: js_slice_def Let_def nat_diff_distrib)
  ultimately have s1: "js_slice rows 0 (int (length rows) - 2) = r0 # take (length rows - 3) rest"
    by simp
  have "js_slice rows (int (length rows) - 2) (int (length rows)) = drop (length rows - 2) rows"
    using len by (simp add: js_slice_def Let_def nat_diff_distrib)
  then have s2: "js_slice rows (int (length rows) - 2) (int (length rows))
      = [rows ! (length rows - 2), rows ! (length rows - 1)]"
    using len by (simp add: drop_last_two)
  show ?thesis
    unfolding parseCsv_def rows_def [symmetric] Let_def s1 s2
    by (simp add: toArr_def rows)
qed

lemma csv_example_result:
  "parseCsv csv_example =
     Inr \<lparr> list = [[(''h1'', Str ''1''), (''h2'', Str ''2'')]],
           stat = Obj [(''s1'' @ [CHR 0x60] @ ''A'', Str ''C''),
                       (''s2'' @ [CHR 0x60] @ ''B'', Str ''D'')] \<rparr>"
  by code_simp

text \<open>
  C7, as the code has it. The decoder trims its input and splits it on line breaks. When
  that gives at least three rows, the first row gives the column titles of the data rows,
  which are all rows but the first and the final two; the final two rows are decoded the
  same way as a table of their own, the last-but-one row giving the titles of the
  statistics and the last row their values. The value of a cell is the text that follows
  its first backtick, up to the next backtick if there is one. On the example input the
  result is \<open>list = [{h1: '1', h2: '2'}]\<close> and a \<open>stat\<close> object whose keys are the cells of
  the third row: \<open>s1`A\<close> with value \<open>C\<close> and \<open>s2`B\<close> with value \<open>D\<close>.
\<close>

theorem parseCsv_rows:
  "(3 \<le> length (split_lines (trim input)) \<longrightarrow>
      parseCsv input =
        (let rows = split_lines (trim input); n = length rows
         in Inr \<lparr> list = map (rowData (split_on CHR '','' (rows ! 0))) (take (n - 3) (drop 1 rows)),
                 stat = Obj (rowData (split_on CHR '','' (rows ! (n - 2))) (rows ! (n - 1))) \<rparr>))
   \<and> (CHR 0x60 \<notin> set a \<longrightarrow>
        cell_value (a @ CHR 0x60 # b) = Str (takeWhile (\<lambda>c. c \<noteq> CHR 0x60) b))
   \<and> parseCsv csv_example =
       Inr \<lparr> list = [[(''h1'', Str ''1''), (''h2'', Str ''2'')]],
             stat = Obj [(''s1'' @ [CHR 0x60] @ ''A'', Str ''C''),
                         (''s2'' @ [CHR 0x60] @ ''B'', Str ''D'')] \<rparr>"
  using parseCsv_three_rows [of input] cell_value_after_backtick [of a b] csv_example_result
  by blast

lemma csv_witness_rows:
  "split_lines (trim ('' t,u'' @ [CHR 0x0A] @ ''a,b'' @ [CHR 0x0A] @ ''c,d'' @ [CHR 0x0A] @ ''e,f''
      @ [CHR 0xC2, CHR 0xA0, CHR 0x0A]))
     = [''t,u'', ''a,b'', ''c,d'', ''e,f'']"
  by code_simp

lemma csv_witness_result:
  "(let rows = [''t,u'', ''a,b'', ''c,d'', ''e,f'']; n = length rows
    in Inr \<lparr> list = map (rowData (split_on CHR '','' (rows ! 0))) (take (n - 3) (drop 1 rows)),
            stat = Obj (rowData (split_on CHR '','' (rows ! (n - 2))) (rows ! (n - 1))) \<rparr>)
     = (Inr \<lparr> list = [[(''t'', Undefined), (''u'', Undefined)]],
              stat = Obj [(''c'', Undefined), (''d'', Undefined)] \<rparr> :: js_exception + report)"
  by code_simp

theorem parseCsv_rows_witness:
  "3 \<le> length (split_lines (trim
          ('' t,u'' @ [CHR 0x0A] @ ''a,b'' @ [CHR 0x0A] @ ''c,d'' @ [CHR 0x0A] @ ''e,f''
             @ [CHR 0xC2, CHR 0xA0, CHR 0x0A])))
   \<and> parseCsv ('' t,u'' @ [CHR 0x0A] @ ''a,b'' @ [CHR 0x0A] @ ''c,d'' @ [CHR 0x0A] @ ''e,f''
        @ [CHR 0xC2, CHR 0xA0, CHR 0x0A])
       = Inr \<lparr> list = [[(''t'', Undefined), (''u'', Undefined)]],
               stat = Obj [(''c'', Undefined), (''d'', Undefined)] \<rparr>
   \<and> CHR 0x60 \<notin> set ''x''
   \<and> cell_value (''x'' @ CHR 0x60 # (''1'' @ CHR 0x60 # ''2'')) = Str ''1''"
proof -
  let ?inp = "'' t,u'' @ [CHR 0x0A] @ ''a,b'' @ [CHR 0x0A] @ ''c,d'' @ [CHR 0x0A] @ ''e,f''
      @ [CHR 0xC2, CHR 0xA0, CHR 0x0A]"
  note r = csv_witness_rows
  have l: "3 \<le> length (split_lines (trim ?inp))" unfolding r by simp
  note t = parseCsv_rows [of ?inp "''x''" "''1'' @ CHR 0x60 # ''2''"]
  from t l
  have 1: "parseCsv ?inp = Inr \<lparr> list = [[(''t'', Undefined), (''u'', Undefined)]],
               stat = Obj [(''c'', Undefined), (''d'', Undefined)] \<rparr>"
    unfolding r csv_witness_result by blast
  from t have 2: "cell_value (''x'' @ CHR 0x60 # (''1'' @ CHR 0x60 # ''2'')) = Str ''1''" by simp
  from l 1 2 show ?thesis by simp
qed

text \<open>
  On the example input the statistics object is not \<open>{h1: 'C', h2: 'D'}\<close>: the third row,
  not the first, names its fields. A cell with two backticks has as its value the text
  between them, not all the text after the first. An input of two rows has no result: the
  decoder raises a TypeError.
\<close>

theorem parseCsv_stat_counterexample:
  "parseCsv csv_example \<noteq>
     Inr \<lparr> list = [[(''h1'', Str ''1''), (''h2'', Str ''2'')]],
           stat = Obj [(''h1'', Str ''C''), (''h2'', Str ''D'')] \<rparr>
   \<and> parseCsv (''h'' @ [CHR 0x0A] @ ''x'' @ [CHR 0x60] @ ''1'' @ [CHR 0x60] @ ''2'' @ [CHR 0x0A]
         @ ''s'' @ [CHR 0x60] @ ''A'' @ [CHR 0x0A] @ ''s'' @ [CHR 0x60] @ ''B'')
       = Inr \<lparr> list = [[(''h'', Str ''1'')]],
               stat = Obj [(''s'' @ [CHR 0x60] @ ''A'', Str ''B'')] \<rparr>
   \<and> parseCsv (''a,b'' @ [CHR 0x0A] @ ''c,d'') = Inl TypeError"
  by code_simp

section \<open>Properties of the response decoder\<close>




section \<open>Properties of the signed query and the operations\<close>

lemma getSign_None:
  "getSign e this pkg None =
     ([EvDigest ''MD5'' (sign_input this pkg)], Inr (toUpperCase (md5 e (sign_input this pkg))))"
  by (simp add: getSign_def signTypes_def sign_input_def underscore_clone_def Let_def)

text \<open>The signed query, stage by stage, in terms of the two values of \<^verbatim>\<open>params\<close>.\<close>

lemma signedQuery_unfold:
  "signedQuery e this nonce url params \<lparr> opt_https = h, opt_required = Some req \<rparr> =
     (let p2 = defaulted_params this nonce url params;
          p5 = checked_params e this nonce url params;
          missing = missing_groups p5 req;
          xml = buildObject e [(''xml'', Obj p5)];
          reply = (if h then https_post e (pfx this) (passphrase this) URL xml
                   else request_post e URL xml);
          calls = [EvDigest ''MD5'' (sign_input this p2), EvBuildXml p5,
                   if h then EvHttps URL xml else EvHttp URL xml]
      in if missing \<noteq> []
         then ([EvDigest ''MD5'' (sign_input this p2)],
               Callback (Some (ErrString (''missing params '' @ join '','' missing))) Undefined)
         else (case reply of
                 Inl err \<Rightarrow> (calls, Callback (Some (ErrObject err)) Undefined)
               | Inr body \<Rightarrow> (calls @ [EvParse body], snd (validate e body))))"
proof -
  let ?p2 = "defaulted_params this nonce url params"
  let ?p5 = "checked_params e this nonce url params"
  let ?p3 = "underscore_extend [(''sign'', Str (toUpperCase (md5 e (sign_input this ?p2))))] ?p2"
  have p2: "extendWithDefault this nonce (set_prop params ''service'' url)
       [''mch_id'', ''nonce_str'', ''sub_appid''] = ?p2"
    by (simp add: defaulted_params_def)
  have p5: "stringify_values
        (if truthy (get_prop ?p3 ''long_url'')
         then set_prop ?p3 ''long_url''
                (Str (encodeURIComponent e (js_to_string (get_prop ?p3 ''long_url''))))
         else ?p3) = ?p5"
    by (simp add: checked_params_def Let_def)
  show ?thesis
    unfolding signedQuery_def Let_def p2 getSign_None snd_conv fst_conv sum.case p5
    by (cases h; cases "request_post e URL (buildObject e [(''xml'', Obj ?p5)])";
        cases "https_post e (pfx this) (passphrase this) URL (buildObject e [(''xml'', Obj ?p5)])")
       (simp_all add: buildXml_def httpsRequest_def httpRequest_def validate_def)
qed

lemma transaction_signedQuery:
  "transaction opn e this nonce0 nonce params =
     signedQuery e this nonce (query_url opn this params) (query_params opn this nonce0 params)
       \<lparr> opt_https = uses_https opn, opt_required = Some (required_groups opn) \<rparr>"
  by (cases opn)
     (simp_all add: unifiedOrder_def orderQuery_def refund_def refundQuery_def closeOrder_def Let_def)

lemma transaction_unfold:
  "transaction opn e this nonce0 nonce params =
     (let p2 = signed_params opn this nonce0 nonce params;
          p5 = request_params opn e this nonce0 nonce params;
          missing = missing_groups p5 (required_groups opn);
          xml = buildObject e [(''xml'', Obj p5)];
          calls = [EvDigest ''MD5'' (sign_input this p2), EvBuildXml p5, transport_event opn xml]
      in if missing \<noteq> []
         then ([EvDigest ''MD5'' (sign_input this p2)],
               Callback (Some (ErrString (''missing params '' @ join '','' missing))) Undefined)
         else (case transport_reply opn e this xml of
                 Inl err \<Rightarrow> (calls, Callback (Some (ErrObject err)) Undefined)
               | Inr body \<Rightarrow> (calls @ [EvParse body], snd (validate e body))))"
  unfolding transaction_signedQuery signedQuery_unfold
  by (simp add: signed_params_def request_params_def transport_event_def transport_reply_def Let_def)

lemma set_missing_groups:
  "set (missing_groups p req) =
     {g \<in> set req. \<forall>k \<in> set (split_on CHR ''|'' g). \<not> truthy (get_prop p k)}"
  by (auto simp: missing_groups_def list_ex_iff)

lemma wf_query_params: "wf_obj params \<Longrightarrow> wf_obj (query_params opn this nonce0 params)"
  by (cases opn) (simp_all add: wf_set_prop wf_extendWithDefault)



lemma refund_example:
  "missing_groups
     (request_params Refund test_env test_account ''n0'' ''n1'' [(''out_trade_no'', Str ''T1'')])
     (required_groups Refund) = [''out_refund_no'', ''total_fee'', ''refund_fee'']"
  by code_simp

lemma order_query_example:
  "transaction OrderQuery test_env test_account ''n0'' ''n1'' [(''out_trade_no'', Str ''T1'')] =
     ([EvDigest ''MD5''
         ''mch_id=Y&nonce_str=n1&out_trade_no=T1&service=unified.trade.query&sub_appid=wx1&key=secret'',
       EvBuildXml
         [(''sign'', Str ''MCH_ID=Y&NONCE_STR=N1&OUT_TRADE_NO=T1&SERVICE=UNIFIED.TRADE.QUERY&SUB_APPID=WX1&KEY=SECRET''),
          (''mch_id'', Str ''Y''), (''nonce_str'', Str ''n1''), (''sub_appid'', Str ''wx1''),
          (''out_trade_no'', Str ''T1''), (''service'', Str ''unified.trade.query'')],
       EvHttp ''https://pay.swiftpass.cn/pay/gateway'' ''<xml/>'',
       EvParse ''body''],
      Callback None (Obj [(''pay_info'', Str ''{}'')]))"
  by code_simp


text \<open>
  C2, as the code has it. For every transaction operation and every parameter mapping:
  if, in the mapping as it is checked (after the service field, the account defaults and the
  signature are merged in and every value that is neither undefined nor null is coerced to
  its string form), at least one required group is unsatisfied, then the operation answers
  with the single error \<open>missing params\<close> followed by the unsatisfied groups joined by
  commas, those being exactly the required groups none of whose keys maps to a truthy value
  there, and it calls no transport: the digest call of the signature is the only call made.
\<close>

theorem missing_groups_short_circuit:
  assumes "missing_groups (request_params opn e this nonce0 nonce params) (required_groups opn) \<noteq> []"
  shows "transaction opn e this nonce0 nonce params =
           ([EvDigest ''MD5'' (sign_input this (signed_params opn this nonce0 nonce params))],
            Callback (Some (ErrString (''missing params '' @ join '',''
               (missing_groups (request_params opn e this nonce0 nonce params) (required_groups opn)))))
              Undefined)
     \<and> filter is_transport (fst (transaction opn e this nonce0 nonce params)) = []
     \<and> set (missing_groups (request_params opn e this nonce0 nonce params) (required_groups opn)) =
         {g \<in> set (required_groups opn).
            \<forall>k \<in> set (split_on CHR ''|'' g).
              \<not> truthy (get_prop (request_params opn e this nonce0 nonce params) k)}"
  using assms
  by (simp add: transaction_unfold [of opn e this nonce0 nonce params] Let_def set_missing_groups)

theorem missing_groups_short_circuit_witness:
  "missing_groups
     (request_params Refund test_env test_account ''n0'' ''n1'' [(''out_trade_no'', Str ''T1'')])
     (required_groups Refund) \<noteq> []
   \<and> snd (transaction Refund test_env test_account ''n0'' ''n1'' [(''out_trade_no'', Str ''T1'')]) =
       Callback (Some (ErrString ''missing params out_refund_no,total_fee,refund_fee'')) Undefined
   \<and> filter is_transport
        (fst (transaction Refund test_env test_account ''n0'' ''n1'' [(''out_trade_no'', Str ''T1'')])) = []"
proof -
  note m = refund_example
  have ne: "missing_groups
       (request_params Refund test_env test_account ''n0'' ''n1'' [(''out_trade_no'', Str ''T1'')])
       (required_groups Refund) \<noteq> []"
    unfolding m by simp
  from missing_groups_short_circuit [OF ne] show ?thesis
    unfolding m by simp
qed

text \<open>
  In the caller's mapping \<open>{out_trade_no: 0}\<close> the one required group of the close
  operation has no key with a truthy value, yet the operation builds the document and calls
  the transport: coerced to the string \<open>0\<close>, the value satisfies the group.
\<close>

theorem falsy_value_reaches_transport_counterexample:
  "missing_groups [(''out_trade_no'', Num 0)] (required_groups CloseOrder) = [''out_trade_no'']
   \<and> transaction CloseOrder test_env test_account ''n0'' ''n1'' [(''out_trade_no'', Num 0)] =
       ([EvDigest ''MD5''
           ''mch_id=Y&nonce_str=n1&out_trade_no=0&service=unified.trade.close&sub_appid=wx1&key=secret'',
         EvBuildXml
           [(''sign'', Str ''MCH_ID=Y&NONCE_STR=N1&OUT_TRADE_NO=0&SERVICE=UNIFIED.TRADE.CLOSE&SUB_APPID=WX1&KEY=SECRET''),
            (''mch_id'', Str ''Y''), (''nonce_str'', Str ''n1''), (''sub_appid'', Str ''wx1''),
            (''out_trade_no'', Str ''0''), (''service'', Str ''unified.trade.close'')],
         EvHttp ''https://pay.swiftpass.cn/pay/gateway'' ''<xml/>'',
         EvParse ''body''],
        Callback None (Obj [(''pay_info'', Str ''{}'')]))"
  by code_simp

text \<open>
  C5, as the code has it. Every transaction operation sets the \<open>service\<close> field and merges
  the account defaults under the caller's values, computes the signature of that mapping
  (the first call made is the digest), merges the mapping over the signature, encodes
  \<open>long_url\<close>, coerces the values to strings, and only then checks the required groups. If
  a group is unsatisfied it answers with the error and makes no further call; otherwise it
  builds the document from the checked mapping, calls its transport, and on a reply parses
  the body and answers with what the decoder gives, on a transport error with that error.
\<close>

theorem transaction_order:
  "transaction opn e this nonce0 nonce params =
     (let p2 = signed_params opn this nonce0 nonce params;
          p5 = request_params opn e this nonce0 nonce params;
          missing = missing_groups p5 (required_groups opn);
          xml = buildObject e [(''xml'', Obj p5)];
          calls = [EvDigest ''MD5'' (sign_input this p2), EvBuildXml p5, transport_event opn xml]
      in if missing \<noteq> []
         then ([EvDigest ''MD5'' (sign_input this p2)],
               Callback (Some (ErrString (''missing params '' @ join '','' missing))) Undefined)
         else (case transport_reply opn e this xml of
                 Inl err \<Rightarrow> (calls, Callback (Some (ErrObject err)) Undefined)
               | Inr body \<Rightarrow> (calls @ [EvParse body], snd (validate e body))))
   \<and> (wf_obj params \<longrightarrow>
        get_prop (signed_params opn this nonce0 nonce params) ''service'' = query_url opn this params)
   \<and> request_params opn e this nonce0 nonce params =
       (let p2 = signed_params opn this nonce0 nonce params;
            p3 = underscore_extend [(''sign'', Str (toUpperCase (md5 e (sign_input this p2))))] p2;
            p4 = (if truthy (get_prop p3 ''long_url'')
                  then set_prop p3 ''long_url''
                         (Str (encodeURIComponent e (js_to_string (get_prop p3 ''long_url''))))
                  else p3)
        in stringify_values p4)"
proof -
  have "get_prop (signed_params opn this nonce0 nonce params) ''service'' = query_url opn this params"
    if "wf_obj params"
  proof -
    have "wf_obj (set_prop (query_params opn this nonce0 params) ''service'' (query_url opn this params))"
      by (intro wf_set_prop wf_query_params that)
    then show ?thesis
      by (simp add: signed_params_def defaulted_params_def get_prop_extendWithDefault Object_keys_def
            key_set_set_prop get_prop_set_prop)
  qed
  then show ?thesis
    using transaction_unfold [of opn e this nonce0 nonce params]
    by (simp add: request_params_def signed_params_def checked_params_def)
qed

theorem transaction_order_witness:
  "wf_obj [(''out_trade_no'', Str ''T1'')]
   \<and> get_prop (signed_params OrderQuery test_account ''n0'' ''n1'' [(''out_trade_no'', Str ''T1'')])
        ''service'' = Str ''unified.trade.query''
   \<and> transaction OrderQuery test_env test_account ''n0'' ''n1'' [(''out_trade_no'', Str ''T1'')] =
     ([EvDigest ''MD5''
         ''mch_id=Y&nonce_str=n1&out_trade_no=T1&service=unified.trade.query&sub_appid=wx1&key=secret'',
       EvBuildXml
         [(''sign'', Str ''MCH_ID=Y&NONCE_STR=N1&OUT_TRADE_NO=T1&SERVICE=UNIFIED.TRADE.QUERY&SUB_APPID=WX1&KEY=SECRET''),
          (''mch_id'', Str ''Y''), (''nonce_str'', Str ''n1''), (''sub_appid'', Str ''wx1''),
          (''out_trade_no'', Str ''T1''), (''service'', Str ''unified.trade.query'')],
       EvHttp ''https://pay.swiftpass.cn/pay/gateway'' ''<xml/>'',
       EvParse ''body''],
      Callback None (Obj [(''pay_info'', Str ''{}'')]))"
proof -
  have w: "wf_obj [(''out_trade_no'', Str ''T1'')]" by (simp add: wf_obj_def)
  from transaction_order [of OrderQuery test_env test_account "''n0''" "''n1''"
      "[(''out_trade_no'', Str ''T1'')]"] w
  have "get_prop (signed_params OrderQuery test_account ''n0'' ''n1'' [(''out_trade_no'', Str ''T1'')])
        ''service'' = Str ''unified.trade.query''"
    by (simp add: URLS_ORDER_QUERY_def)
  with w order_query_example show ?thesis by simp
qed

text \<open>
  The close operation on the empty mapping fails the check of its required group, and the
  digest of the signature has been called all the same: the signature is computed before
  the required fields are checked, not after.
\<close>

theorem sign_before_validation_counterexample:
  "transaction CloseOrder test_env test_account ''n0'' ''n1'' [] =
     ([EvDigest ''MD5'' ''mch_id=Y&nonce_str=n1&service=unified.trade.close&sub_appid=wx1&key=secret''],
      Callback (Some (ErrString ''missing params out_trade_no'')) Undefined)"
  by code_simp



end
